theory Spec2Isabelle
  imports Complex_Main
begin

section \<open>Data model of app/main.py\<close>

text \<open>
  The application is a set of FastAPI handlers over a relational store (SQLModel on
  SQLite by default). Each table is a list of rows in insertion order; a handler is a
  function from the committed store to a response and the store after the request.

  Conventions of the embedding:
  \<^item> a field whose name occurs in several model classes is written \<open>Class_field\<close>
    (\<open>Animal_id\<close> is \<open>Animal.id\<close>, \<open>Gestation_animal_id\<close> is \<open>Gestation.animal_id\<close>);
  \<^item> \<open>date\<close> is the proleptic Gregorian ordinal of Python's \<open>date.toordinal()\<close>, so that
    \<open>date + timedelta(days=n)\<close> is integer addition with the range check of \<open>datetime\<close>;
  \<^item> Python \<open>float\<close> quantities (liters, weight) are idealised as rationals;
  \<^item> foreign keys are not enforced (the SQLite default; the engine is created without
    turning them on), the unique index on \<open>Animal.tag_no\<close> is;
  \<^item> an integer primary key left to the database is one more than the largest key in
    the table (SQLite's rowid rule), and 1 in an empty table;
  \<^item> \<open>.first()\<close> of an unordered query returns the first matching row in table order,
    and \<open>order_by\<close> is a stable sort of the matching rows.
\<close>

type_synonym date = int
type_synonym datetime = int

definition MINORDINAL :: date where
  "MINORDINAL = 1"

definition MAXORDINAL :: date where
  "MAXORDINAL = 3652059"

definition DEFAULT_GESTATION_DAYS :: int where
  "DEFAULT_GESTATION_DAYS = 283"

datatype exn = OverflowError

text \<open>\<open>d + timedelta(days=n)\<close>: raises OverflowError when the result is not a date.\<close>

definition date_add :: "date \<Rightarrow> int \<Rightarrow> date option" where
  "date_add d n = (if MINORDINAL \<le> d + n \<and> d + n \<le> MAXORDINAL then Some (d + n) else None)"

record Breed =
  Breed_id :: int
  Breed_name :: string

record User =
  User_id :: int
  username :: string
  hashed_password :: string
  full_name :: "string option"
  is_admin :: bool
  User_farm_id :: "int option"
  User_created_at :: datetime

record Animal =
  Animal_id :: int
  tag_no :: string
  sex :: string
  birthdate :: date
  breed_id :: "int option"
  Animal_farm_id :: "int option"
  cattle_type :: string
  mother_tag_no :: "string option"
  lactating :: bool
  pregnant :: bool
  vaccinated :: bool
  health :: "string option"
  weight :: rat
  reproductions :: int
  Animal_created_at :: datetime

record MilkYieldDaily =
  Milk_id :: int
  Milk_animal_id :: int
  entry_date :: date
  am_liters :: rat
  pm_liters :: rat
  total_liters :: rat

datatype BreedingType = Heat | AI | NaturalService | PDPositive | PDNegative

record BreedingEvent =
  Event_id :: int
  Event_animal_id :: int
  event_type :: BreedingType
  event_date :: date
  Event_notes :: "string option"

record Gestation =
  Gestation_id :: int
  Gestation_animal_id :: int
  service_date :: date
  predicted_calving_date :: date
  actual_calving_date :: "date option"
  Gestation_notes :: "string option"

record VaccinationReminder =
  Reminder_id :: int
  Reminder_animal_id :: int
  reminder_date :: date
  Reminder_notes :: "string option"
  Reminder_created_at :: datetime

record store =
  users :: "User list"
  breeds :: "Breed list"
  animals :: "Animal list"
  milk :: "MilkYieldDaily list"
  breeding_events :: "BreedingEvent list"
  gestations :: "Gestation list"
  reminders :: "VaccinationReminder list"

text \<open>The signed session cookie; only the key \<open>user_id\<close> is read by the handlers below.\<close>

record request =
  session_user_id :: "int option"

section \<open>Responses\<close>

record home_ctx =
  home_user :: "User option"
  animals_count :: "nat option"
  milk_entries_count :: "nat option"
  gestations_count :: "nat option"

record detail_ctx =
  detail_animal :: Animal
  detail_breeding_events :: "BreedingEvent list"
  detail_gestation :: "Gestation option"
  detail_milk_entries :: "MilkYieldDaily list"
  detail_vac_reminders :: "VaccinationReminder list"

text \<open>
  The dashboard's template context. \<open>chart_days\<close> stands for \<open>chart_labels\<close>: the day of
  each chart entry, before \<open>strftime\<close> formats it.
\<close>

record dashboard_ctx =
  total_animals :: nat
  today_milk :: rat
  avg_7 :: rat
  pregnant_count :: nat
  chart_days :: "date list"
  chart_values :: "rat list"
  recent_events :: "BreedingEvent list"

datatype page =
    HomePage home_ctx
  | AnimalsPage "Animal list" string
  | AnimalDetailPage detail_ctx
  | DashboardPage dashboard_ctx

datatype response =
    RedirectResponse string nat
  | HTTPException nat string
  | TemplateResponse page
  | Unhandled exn


section \<open>Small helpers\<close>

text \<open>Truth value of an \<open>Optional[int]\<close>: \<open>None\<close> and \<open>0\<close> are false.\<close>

fun truthy_int :: "int option \<Rightarrow> bool" where
  "truthy_int None = False"
| "truthy_int (Some n) = (n \<noteq> 0)"

text \<open>\<open>s or None\<close> on an \<open>Optional[str]\<close>: the empty string becomes \<open>None\<close>.\<close>

fun or_None :: "string option \<Rightarrow> string option" where
  "or_None None = None"
| "or_None (Some s) = (if s = [] then None else Some s)"

text \<open>\<open>str.lower\<close> on ASCII letters.\<close>

definition lower_char :: "char \<Rightarrow> char" where
  "lower_char c =
     (case map_of (zip ''ABCDEFGHIJKLMNOPQRSTUVWXYZ'' ''abcdefghijklmnopqrstuvwxyz'') c of
        None \<Rightarrow> c
      | Some l \<Rightarrow> l)"

definition lower :: "string \<Rightarrow> string" where
  "lower s = map lower_char s"

text \<open>\<open>needle in hay\<close> on strings.\<close>

fun str_in :: "string \<Rightarrow> string \<Rightarrow> bool" where
  "str_in needle [] = (needle = [])"
| "str_in needle (c # hay) = (take (length needle) (c # hay) = needle \<or> str_in needle hay)"

definition form_bool :: "string option \<Rightarrow> bool" where
  "form_bool v =
     (case v of
        None \<Rightarrow> False
      | Some x \<Rightarrow> lower x \<in> set [''on'', ''yes'', ''true'', ''1''])"

fun next_id :: "int list \<Rightarrow> int" where
  "next_id [] = 1"
| "next_id (x # xs) = fold max xs x + 1"

text \<open>\<open>session.get(User, user_id)\<close> and \<open>session.get(Animal, animal_id)\<close>.\<close>

definition get_User :: "store \<Rightarrow> int \<Rightarrow> User option" where
  "get_User s uid = find (\<lambda>u. User_id u = uid) (users s)"

definition get_Animal :: "store \<Rightarrow> int \<Rightarrow> Animal option" where
  "get_Animal s aid = find (\<lambda>a. Animal_id a = aid) (animals s)"

definition get_Breed :: "store \<Rightarrow> int \<Rightarrow> Breed option" where
  "get_Breed s bid = find (\<lambda>b. Breed_id b = bid) (breeds s)"

text \<open>
  \<open>get_current_user\<close>: no user for a missing or zero \<open>user_id\<close> and for an id that is not
  in the user table. (In the last case the source also clears the cookie; the cookie of
  the next request is an input of its own here.)
\<close>

definition get_current_user :: "request \<Rightarrow> store \<Rightarrow> User option" where
  "get_current_user req s =
     (case session_user_id req of
        None \<Rightarrow> None
      | Some uid \<Rightarrow> if uid = 0 then None else get_User s uid)"

text \<open>
  The condition \<open>user.farm_id and not user.is_admin\<close> under which \<open>animals_list\<close>,
  \<open>animal_detail\<close> and \<open>dashboard\<close> restrict a query to the user's farm.
\<close>

definition farm_scoped :: "User \<Rightarrow> bool" where
  "farm_scoped user = (truthy_int (User_farm_id user) \<and> \<not> is_admin user)"

text \<open>\<open>a and a.farm_id == user.farm_id\<close> for \<open>a = session.get(Animal, animal_id)\<close>.\<close>

definition animal_on_farm :: "store \<Rightarrow> User \<Rightarrow> int \<Rightarrow> bool" where
  "animal_on_farm s user aid =
     (case get_Animal s aid of
        None \<Rightarrow> False
      | Some a \<Rightarrow> Animal_farm_id a = User_farm_id user)"

text \<open>\<open>str(n)\<close> for the \<open>animal_id\<close> inside a redirect URL.\<close>

fun str_nat :: "nat \<Rightarrow> string" where
  "str_nat n =
     (if n < 10 then [''0123456789'' ! n] else str_nat (n div 10) @ [''0123456789'' ! (n mod 10)])"

declare str_nat.simps [simp del]

definition str_int :: "int \<Rightarrow> string" where
  "str_int i = (if i < 0 then CHR ''-'' # str_nat (nat (- i)) else str_nat (nat i))"

text \<open>
  \<open>round(x, ndigits)\<close> on the idealised value: to the nearest multiple of \<open>10 ^ - ndigits\<close>,
  a tie going to the even one.
\<close>

definition round_half_even :: "rat \<Rightarrow> int" where
  "round_half_even x =
     (let f = \<lfloor>x\<rfloor>; r = x - of_int f
      in if r < 1 / 2 then f else if 1 / 2 < r then f + 1 else if even f then f else f + 1)"

definition py_round :: "rat \<Rightarrow> nat \<Rightarrow> rat" where
  "py_round x ndigits = of_int (round_half_even (x * 10 ^ ndigits)) / 10 ^ ndigits"

text \<open>
  \<open>select(Gestation).where(Gestation.animal_id == animal_id)
  .order_by(Gestation.service_date.desc())).first()\<close>
\<close>

definition latest_gestation :: "store \<Rightarrow> int \<Rightarrow> Gestation option" where
  "latest_gestation s animal_id =
     (case sort_key (\<lambda>g. - service_date g)
             (filter (\<lambda>g. Gestation_animal_id g = animal_id) (gestations s)) of
        [] \<Rightarrow> None
      | g # _ \<Rightarrow> Some g)"

section \<open>Animals: create, list, detail, edit, delete\<close>

record animal_form =
  f_tag_no :: string
  f_sex :: string
  f_birthdate :: date
  f_breed_name :: "string option"
  f_cattle_type :: string
  f_mother_tag_no :: "string option"
  f_lactating :: "string option"
  f_pregnant :: "string option"
  f_vaccinated :: "string option"
  f_health :: "string option"
  f_weight :: rat
  f_reproductions :: int

text \<open>
  The block shared by \<open>animals_create\<close> and \<open>animal_edit\<close>: look the breed up by name and,
  when there is none, insert it and commit at once. The result is \<open>breed_id\<close> and the
  store after that commit.
\<close>

definition breed_lookup_or_create :: "string option \<Rightarrow> store \<Rightarrow> int option \<times> store" where
  "breed_lookup_or_create breed_name s =
     (case breed_name of
        None \<Rightarrow> (None, s)
      | Some bn \<Rightarrow>
          if bn = [] then (None, s)
          else (case find (\<lambda>b. Breed_name b = bn) (breeds s) of
                  Some breed \<Rightarrow> (Some (Breed_id breed), s)
                | None \<Rightarrow>
                    let breed = \<lparr>Breed_id = next_id (map Breed_id (breeds s)), Breed_name = bn\<rparr>
                    in (Some (Breed_id breed), s\<lparr>breeds := breeds s @ [breed]\<rparr>)))"


definition animals_list :: "request \<Rightarrow> string option \<Rightarrow> store \<Rightarrow> response" where
  "animals_list req q s =
     (case get_current_user req s of
        None \<Rightarrow> RedirectResponse ''/login'' 302
      | Some user \<Rightarrow>
          let stmt = (if farm_scoped user
                      then filter (\<lambda>a. Animal_farm_id a = User_farm_id user) (animals s)
                      else animals s);
              animals_all = sort_key Animal_id stmt;
              animals' =
                (case or_None q of
                   Some q' \<Rightarrow>
                     let ql = lower q'
                     in filter (\<lambda>a.
                          let breed = (case breed_id a of
                                         None \<Rightarrow> None
                                       | Some bid \<Rightarrow> if bid = 0 then None else get_Breed s bid)
                          in str_in ql (lower (tag_no a))
                             \<or> str_in ql (lower (case or_None (mother_tag_no a) of
                                                       None \<Rightarrow> [] | Some m \<Rightarrow> m))
                             \<or> (case breed of
                                   None \<Rightarrow> False
                                 | Some b \<Rightarrow> str_in ql (lower (Breed_name b)))) animals_all
                 | None \<Rightarrow> animals_all)
          in TemplateResponse
               (AnimalsPage animals' (case or_None q of None \<Rightarrow> [] | Some q' \<Rightarrow> q')))"

definition animal_detail :: "request \<Rightarrow> int \<Rightarrow> store \<Rightarrow> response" where
  "animal_detail req animal_id s =
     (case get_current_user req s of
        None \<Rightarrow> RedirectResponse ''/login'' 302
      | Some user \<Rightarrow>
          (case get_Animal s animal_id of
             None \<Rightarrow> HTTPException 404 ''Animal not found''
           | Some animal \<Rightarrow>
               if farm_scoped user \<and> Animal_farm_id animal \<noteq> User_farm_id user
               then HTTPException 403 ''Not allowed''
               else TemplateResponse (AnimalDetailPage
                 \<lparr>detail_animal = animal,
                  detail_breeding_events =
                    sort_key (\<lambda>e. - event_date e)
                      (filter (\<lambda>e. Event_animal_id e = animal_id) (breeding_events s)),
                  detail_gestation = latest_gestation s animal_id,
                  detail_milk_entries =
                    sort_key (\<lambda>m. - entry_date m)
                      (filter (\<lambda>m. Milk_animal_id m = animal_id) (milk s)),
                  detail_vac_reminders =
                    sort_key (\<lambda>r. - reminder_date r)
                      (filter (\<lambda>r. Reminder_animal_id r = animal_id) (reminders s))\<rparr>)))"

definition animal_edit :: "request \<Rightarrow> int \<Rightarrow> animal_form \<Rightarrow> store \<Rightarrow> response \<times> store" where
  "animal_edit req animal_id form s =
     (case get_current_user req s of
        None \<Rightarrow> (RedirectResponse ''/login'' 302, s)
      | Some user \<Rightarrow>
          (case get_Animal s animal_id of
             None \<Rightarrow> (HTTPException 404 ''Animal not found'', s)
           | Some animal \<Rightarrow>
               let (breed_id', s1) = breed_lookup_or_create (f_breed_name form) s;
                   animal' = animal
                     \<lparr>tag_no := f_tag_no form,
                      sex := f_sex form,
                      birthdate := f_birthdate form,
                      breed_id := breed_id',
                      cattle_type := (if f_cattle_type form = [] then ''Cow'' else f_cattle_type form),
                      mother_tag_no := or_None (f_mother_tag_no form),
                      lactating := form_bool (f_lactating form),
                      pregnant := form_bool (f_pregnant form),
                      vaccinated := form_bool (f_vaccinated form),
                      health := or_None (f_health form),
                      weight := (if f_weight form = 0 then 0 else f_weight form),
                      reproductions := (if f_reproductions form = 0 then 0 else f_reproductions form)\<rparr>
               in if f_tag_no form
                       \<in> set (map tag_no (filter (\<lambda>a. Animal_id a \<noteq> animal_id) (animals s1)))
                  then (HTTPException 400 ''Tag already exists'', s1)
                  else (RedirectResponse (''/animals/'' @ str_int animal_id) 302,
                        s1\<lparr>animals := map (\<lambda>a. if Animal_id a = animal_id then animal' else a)
                                          (animals s1)\<rparr>)))"

text \<open>
  \<open>animal_delete\<close> runs four \<open>select\<close> statements over the dependent tables and drops
  their results; the only change it commits is \<open>session.delete(animal)\<close>.
\<close>

definition animal_delete :: "request \<Rightarrow> int \<Rightarrow> store \<Rightarrow> response \<times> store" where
  "animal_delete req animal_id s =
     (case get_current_user req s of
        None \<Rightarrow> (RedirectResponse ''/login'' 302, s)
      | Some user \<Rightarrow>
          (case get_Animal s animal_id of
             None \<Rightarrow> (HTTPException 404 ''Not found'', s)
           | Some animal \<Rightarrow>
               let selected_milk = filter (\<lambda>m. Milk_animal_id m = animal_id) (milk s);
                   selected_events = filter (\<lambda>e. Event_animal_id e = animal_id) (breeding_events s);
                   selected_gestations = filter (\<lambda>g. Gestation_animal_id g = animal_id) (gestations s);
                   selected_reminders = filter (\<lambda>r. Reminder_animal_id r = animal_id) (reminders s)
               in (RedirectResponse ''/animals'' 302,
                   s\<lparr>animals := filter (\<lambda>a. Animal_id a \<noteq> Animal_id animal) (animals s)\<rparr>)))"

section \<open>Milk, breeding events, calving\<close>

definition add_milk :: "request \<Rightarrow> int \<Rightarrow> date \<Rightarrow> rat \<Rightarrow> rat \<Rightarrow> store \<Rightarrow> response \<times> store" where
  "add_milk req animal_id entry_date' am_liters' pm_liters' s =
     (case get_current_user req s of
        None \<Rightarrow> (RedirectResponse ''/login'' 302, s)
      | Some user \<Rightarrow>
          let total = am_liters' + pm_liters';
              existing = find (\<lambda>m. Milk_animal_id m = animal_id \<and> entry_date m = entry_date') (milk s)
          in (RedirectResponse (''/animals/'' @ str_int animal_id) 302,
              case existing of
                Some e \<Rightarrow>
                  s\<lparr>milk := map (\<lambda>m. if Milk_id m = Milk_id e
                                      then m\<lparr>am_liters := am_liters', pm_liters := pm_liters',
                                             total_liters := total\<rparr>
                                      else m) (milk s)\<rparr>
              | None \<Rightarrow>
                  s\<lparr>milk := milk s @
                     [\<lparr>Milk_id = next_id (map Milk_id (milk s)),
                       Milk_animal_id = animal_id,
                       entry_date = entry_date',
                       am_liters = am_liters',
                       pm_liters = pm_liters',
                       total_liters = total\<rparr>]\<rparr>))"

definition add_breeding_event ::
  "request \<Rightarrow> int \<Rightarrow> BreedingType \<Rightarrow> date \<Rightarrow> string option \<Rightarrow> store \<Rightarrow> response \<times> store" where
  "add_breeding_event req animal_id event_type' event_date' notes s =
     (case get_current_user req s of
        None \<Rightarrow> (RedirectResponse ''/login'' 302, s)
      | Some user \<Rightarrow>
          (case get_Animal s animal_id of
             None \<Rightarrow> (HTTPException 404 ''Animal not found'', s)
           | Some animal \<Rightarrow>
               let event = \<lparr>Event_id = next_id (map Event_id (breeding_events s)),
                            Event_animal_id = animal_id,
                            event_type = event_type',
                            event_date = event_date',
                            Event_notes = notes\<rparr>;
                   s1 = s\<lparr>breeding_events := breeding_events s @ [event]\<rparr>;
                   ok = RedirectResponse (''/animals/'' @ str_int animal_id) 302
               in if event_type' \<in> {AI, NaturalService}
                  then (case date_add event_date' DEFAULT_GESTATION_DAYS of
                          None \<Rightarrow> (Unhandled OverflowError, s)
                        | Some predicted \<Rightarrow>
                            (case latest_gestation s animal_id of
                               Some gest \<Rightarrow>
                                 (ok, s1\<lparr>gestations :=
                                        map (\<lambda>g. if Gestation_id g = Gestation_id gest
                                                  then g\<lparr>service_date := event_date',
                                                         predicted_calving_date := predicted\<rparr>
                                                  else g) (gestations s)\<rparr>)
                             | None \<Rightarrow>
                                 (ok, s1\<lparr>gestations := gestations s @
                                        [\<lparr>Gestation_id = next_id (map Gestation_id (gestations s)),
                                          Gestation_animal_id = animal_id,
                                          service_date = event_date',
                                          predicted_calving_date = predicted,
                                          actual_calving_date = None,
                                          Gestation_notes = None\<rparr>]\<rparr>)))
                  else (ok, s1)))"

definition mark_calved :: "request \<Rightarrow> int \<Rightarrow> date \<Rightarrow> store \<Rightarrow> response \<times> store" where
  "mark_calved req animal_id calving_date s =
     (case get_current_user req s of
        None \<Rightarrow> (RedirectResponse ''/login'' 302, s)
      | Some user \<Rightarrow>
          (case latest_gestation s animal_id of
             None \<Rightarrow> (HTTPException 404 ''No gestation record'', s)
           | Some gest \<Rightarrow>
               (RedirectResponse (''/animals/'' @ str_int animal_id) 302,
                s\<lparr>gestations :=
                    map (\<lambda>g. if Gestation_id g = Gestation_id gest
                              then g\<lparr>actual_calving_date := Some calving_date\<rparr>
                              else g) (gestations s)\<rparr>)))"

section \<open>Home and dashboard\<close>

text \<open>
  \<open>home\<close> (and \<open>root_redirect\<close>, which has the same body) limits its three counts to the
  user's farm whenever \<open>user.farm_id\<close> is set; \<open>is_admin\<close> is not consulted.
\<close>

definition home :: "date \<Rightarrow> request \<Rightarrow> store \<Rightarrow> response" where
  "home today req s =
     (case get_current_user req s of
        None \<Rightarrow>
          TemplateResponse (HomePage \<lparr>home_user = None, animals_count = None,
                                      milk_entries_count = None, gestations_count = None\<rparr>)
      | Some user \<Rightarrow>
          let stmt = (if truthy_int (User_farm_id user)
                      then filter (\<lambda>a. Animal_farm_id a = User_farm_id user) (animals s)
                      else animals s);
              animals_count' = length stmt;
              milk_rows = filter (\<lambda>m. entry_date m = today) (milk s);
              milk_entries_count' =
                (if truthy_int (User_farm_id user)
                 then sum_list (map (\<lambda>m. 1)
                        (filter (\<lambda>m. animal_on_farm s user (Milk_animal_id m)) milk_rows))
                 else length milk_rows);
              gest_list = filter (\<lambda>g. today \<le> predicted_calving_date g
                                        \<and> actual_calving_date g = None) (gestations s);
              gestations_count' =
                (if truthy_int (User_farm_id user)
                 then sum_list (map (\<lambda>g. 1)
                        (filter (\<lambda>g. animal_on_farm s user (Gestation_animal_id g)) gest_list))
                 else length gest_list)
          in TemplateResponse (HomePage \<lparr>home_user = Some user,
                                         animals_count = Some animals_count',
                                         milk_entries_count = Some milk_entries_count',
                                         gestations_count = Some gestations_count'\<rparr>))"

definition root_redirect :: "date \<Rightarrow> request \<Rightarrow> store \<Rightarrow> response" where
  "root_redirect today req s = home today req s"

text \<open>
  The \<open>for\<close> loops of \<open>dashboard\<close> are folds over the rows they visit: one appends the
  rows of the user's farm, one counts them, one adds their liters up.
\<close>

definition dashboard :: "date \<Rightarrow> request \<Rightarrow> store \<Rightarrow> response" where
  "dashboard today req s =
     (case get_current_user req s of
        None \<Rightarrow> RedirectResponse ''/login'' 302
      | Some user \<Rightarrow>
          let animals' = (if farm_scoped user
                          then filter (\<lambda>a. Animal_farm_id a = User_farm_id user) (animals s)
                          else animals s);
              total_animals' = length animals';
              stmt_milk = filter (\<lambda>m. entry_date m = today) (milk s);
              milk_rows =
                (if farm_scoped user
                 then fold (\<lambda>row acc. if animal_on_farm s user (Milk_animal_id row)
                                        then acc @ [row] else acc) stmt_milk []
                 else stmt_milk);
              milk_today = (if milk_rows \<noteq> [] then sum_list (map total_liters milk_rows) else 0)
          in (case date_add today (- 6) of
                None \<Rightarrow> Unhandled OverflowError
              | Some last7_start \<Rightarrow>
                  let milk7 = filter (\<lambda>m. last7_start \<le> entry_date m \<and> entry_date m \<le> today)
                                (milk s);
                      avg_7' = (if milk7 \<noteq> []
                                then py_round (sum_list (map total_liters milk7) / 7) 2
                                else 0);
                      gest_list = filter (\<lambda>g. today \<le> predicted_calving_date g
                                                \<and> actual_calving_date g = None) (gestations s);
                      pregnant_count' =
                        (if farm_scoped user
                         then fold (\<lambda>g n. if animal_on_farm s user (Gestation_animal_id g)
                                            then n + 1 else n) gest_list 0
                         else length gest_list)
                  in (case date_add today (- 13) of
                        None \<Rightarrow> Unhandled OverflowError
                      | Some start_chart \<Rightarrow>
                          let chart = map (\<lambda>offset.
                                let d = start_chart + int offset;
                                    day_rows = filter (\<lambda>m. entry_date m = d) (milk s);
                                    day_total =
                                      (if farm_scoped user
                                       then fold (\<lambda>m t. if animal_on_farm s user (Milk_animal_id m)
                                                          then t + total_liters m else t) day_rows 0
                                       else sum_list (map total_liters day_rows))
                                in (d, day_total)) [0..<14];
                              recent_events' =
                                take 5 (sort_key (\<lambda>e. - event_date e) (breeding_events s))
                          in TemplateResponse (DashboardPage
                               \<lparr>total_animals = total_animals',
                                today_milk = milk_today,
                                avg_7 = avg_7',
                                pregnant_count = pregnant_count',
                                chart_days = map fst chart,
                                chart_values = map snd chart,
                                recent_events = recent_events'\<rparr>))))"

section \<open>Reading a response\<close>

fun the_dashboard :: "response \<Rightarrow> dashboard_ctx option" where
  "the_dashboard (TemplateResponse (DashboardPage ctx)) = Some ctx"
| "the_dashboard r = None"

fun the_home :: "response \<Rightarrow> home_ctx option" where
  "the_home (TemplateResponse (HomePage ctx)) = Some ctx"
| "the_home r = None"

section \<open>The specification's notions\<close>

text \<open>
  Tenant scoping as the specification words it: a user sees every row when the user is
  an admin or has no farm assigned, and otherwise the rows whose farm is the user's. A
  row of a table joined to Animal is seen through the animal its \<open>animal_id\<close> names.
\<close>

definition animal_in_scope :: "User \<Rightarrow> Animal \<Rightarrow> bool" where
  "animal_in_scope user a =
     (is_admin user \<or> User_farm_id user = None \<or> Animal_farm_id a = User_farm_id user)"

definition row_in_scope :: "store \<Rightarrow> User \<Rightarrow> int \<Rightarrow> bool" where
  "row_in_scope s user animal_id =
     (is_admin user \<or> User_farm_id user = None \<or>
      (case get_Animal s animal_id of
         None \<Rightarrow> False
       | Some a \<Rightarrow> Animal_farm_id a = User_farm_id user))"

text \<open>
  The scoping of the landing page: the rows of the user's farm whenever the user has a
  farm, admin or not.
\<close>

definition animal_on_own_farm :: "User \<Rightarrow> Animal \<Rightarrow> bool" where
  "animal_on_own_farm user a =
     (User_farm_id user = None \<or> Animal_farm_id a = User_farm_id user)"

definition row_on_own_farm :: "store \<Rightarrow> User \<Rightarrow> int \<Rightarrow> bool" where
  "row_on_own_farm s user animal_id =
     (User_farm_id user = None \<or>
      (case get_Animal s animal_id of
         None \<Rightarrow> False
       | Some a \<Rightarrow> Animal_farm_id a = User_farm_id user))"

text \<open>The milk rows of one (animal, calendar date) pair.\<close>

definition milk_rows_of :: "store \<Rightarrow> int \<Rightarrow> date \<Rightarrow> MilkYieldDaily list" where
  "milk_rows_of s animal_id d =
     filter (\<lambda>m. Milk_animal_id m = animal_id \<and> entry_date m = d) (milk s)"

text \<open>A sequence of milk-entry writes for one pair, each an (am, pm) reading.\<close>

definition milk_writes :: "request \<Rightarrow> int \<Rightarrow> date \<Rightarrow> (rat \<times> rat) list \<Rightarrow> store \<Rightarrow> store" where
  "milk_writes req animal_id d ws s =
     fold (\<lambda>w st. snd (add_milk req animal_id d (fst w) (snd w) st)) ws s"

text \<open>
  Pending gestations: predicted calving date today or later, no actual calving date, the
  animal in scope for the user.
\<close>

definition pending_gestations :: "date \<Rightarrow> User \<Rightarrow> store \<Rightarrow> Gestation list" where
  "pending_gestations today user s =
     filter (\<lambda>g. today \<le> predicted_calving_date g \<and> actual_calving_date g = None
                  \<and> row_in_scope s user (Gestation_animal_id g)) (gestations s)"

text \<open>The liters of the in-scope milk rows dated from \<open>lo\<close> to \<open>hi\<close>.\<close>

definition scoped_liters :: "store \<Rightarrow> User \<Rightarrow> date \<Rightarrow> date \<Rightarrow> rat" where
  "scoped_liters s user lo hi =
     sum_list (map total_liters
       (filter (\<lambda>m. lo \<le> entry_date m \<and> entry_date m \<le> hi
                    \<and> row_in_scope s user (Milk_animal_id m)) (milk s)))"

section \<open>Example data\<close>

definition ex_farmer :: User where
  "ex_farmer = \<lparr>User_id = 1, username = ''asha'', hashed_password = ''h1'', full_name = None,
                is_admin = False, User_farm_id = Some 1, User_created_at = 0\<rparr>"

definition ex_admin :: User where
  "ex_admin = \<lparr>User_id = 2, username = ''admin'', hashed_password = ''h2'', full_name = None,
               is_admin = True, User_farm_id = Some 1, User_created_at = 0\<rparr>"

definition ex_cow :: "int \<Rightarrow> string \<Rightarrow> int \<Rightarrow> Animal" where
  "ex_cow i tag farm =
     \<lparr>Animal_id = i, tag_no = tag, sex = ''F'', birthdate = 737000, breed_id = None,
      Animal_farm_id = Some farm, cattle_type = ''Cow'', mother_tag_no = None,
      lactating = True, pregnant = False, vaccinated = False, health = None,
      weight = 0, reproductions = 0, Animal_created_at = 0\<rparr>"

definition ex_milk :: "int \<Rightarrow> int \<Rightarrow> date \<Rightarrow> rat \<Rightarrow> rat \<Rightarrow> MilkYieldDaily" where
  "ex_milk i animal_id d am pm =
     \<lparr>Milk_id = i, Milk_animal_id = animal_id, entry_date = d,
      am_liters = am, pm_liters = pm, total_liters = am + pm\<rparr>"

definition ex_gestation :: "int \<Rightarrow> int \<Rightarrow> date \<Rightarrow> date option \<Rightarrow> Gestation" where
  "ex_gestation i animal_id d calved =
     \<lparr>Gestation_id = i, Gestation_animal_id = animal_id, service_date = d,
      predicted_calving_date = d + 283, actual_calving_date = calved,
      Gestation_notes = None\<rparr>"

text \<open>
  Two users of farm 1 (a farmer and an admin), one cow on farm 1 and one on farm 2; the
  milk and gestation tables are given.
\<close>

definition ex_store :: "MilkYieldDaily list \<Rightarrow> Gestation list \<Rightarrow> store" where
  "ex_store ms gs =
     \<lparr>users = [ex_farmer, ex_admin], breeds = [],
      animals = [ex_cow 1 ''A-1'' 1, ex_cow 2 ''B-7'' 2],
      milk = ms, breeding_events = [], gestations = gs, reminders = []\<rparr>"

definition ex_request :: "int \<Rightarrow> request" where
  "ex_request uid = \<lparr>session_user_id = Some uid\<rparr>"

definition ex_form :: "string \<Rightarrow> string option \<Rightarrow> animal_form" where
  "ex_form tag breed =
     \<lparr>f_tag_no = tag, f_sex = ''F'', f_birthdate = 738000, f_breed_name = breed,
      f_cattle_type = ''Cow'', f_mother_tag_no = None, f_lactating = Some ''on'',
      f_pregnant = None, f_vaccinated = None, f_health = None, f_weight = 0,
      f_reproductions = 0\<rparr>"

section \<open>Facts about the helpers\<close>

lemmas ex_defs = ex_store_def ex_request_def ex_farmer_def ex_admin_def ex_cow_def ex_milk_def
  ex_gestation_def ex_form_def get_current_user_def get_User_def get_Animal_def

lemmas date_defs = date_add_def MINORDINAL_def MAXORDINAL_def DEFAULT_GESTATION_DAYS_def

lemmas str_defs = str_int_def str_nat.simps

lemmas form_defs = form_bool_def lower_def lower_char_def

lemma get_current_user_cong:
  "users s' = users s \<Longrightarrow> get_current_user req s' = get_current_user req s"
  by (simp add: get_current_user_def get_User_def split: option.splits)

lemma latest_gestation_None_iff:
  "latest_gestation s a = None \<longleftrightarrow> (\<forall>g\<in>set (gestations s). Gestation_animal_id g \<noteq> a)"
proof -
  let ?xs = "filter (\<lambda>g. Gestation_animal_id g = a) (gestations s)"
  have "latest_gestation s a = None \<longleftrightarrow> sort_key (\<lambda>g. - service_date g) ?xs = []"
    by (simp add: latest_gestation_def split: list.splits)
  also have "\<dots> \<longleftrightarrow> ?xs = []"
    by (metis length_sort length_0_conv)
  also have "\<dots> \<longleftrightarrow> (\<forall>g\<in>set (gestations s). Gestation_animal_id g \<noteq> a)"
    by (simp add: filter_empty_conv)
  finally show ?thesis .
qed

lemma latest_gestation_Some:
  assumes "latest_gestation s a = Some g0"
  shows "g0 \<in> set (gestations s)" and "Gestation_animal_id g0 = a"
    and "\<forall>g\<in>set (gestations s). Gestation_animal_id g = a \<longrightarrow> service_date g \<le> service_date g0"
proof -
  let ?xs = "filter (\<lambda>g. Gestation_animal_id g = a) (gestations s)"
  let ?ys = "sort_key (\<lambda>g. - service_date g) ?xs"
  from assms obtain rest where ys: "?ys = g0 # rest"
    by (auto simp: latest_gestation_def split: list.splits)
  have "set ?ys = set ?xs" by simp
  with ys have mem: "g0 \<in> set ?xs" and sub: "set ?xs = insert g0 (set rest)"
    by (metis list.set_intros(1), metis list.simps(15))
  from mem show "g0 \<in> set (gestations s)" and "Gestation_animal_id g0 = a" by simp_all
  have "sorted (map (\<lambda>g. - service_date g) ?ys)" by (rule sorted_sort_key)
  with ys have "\<forall>g\<in>set rest. - service_date g0 \<le> - service_date g" by simp
  with sub show "\<forall>g\<in>set (gestations s). Gestation_animal_id g = a \<longrightarrow> service_date g \<le> service_date g0"
    by auto
qed

lemma date_add_gestation:
  "MINORDINAL \<le> d \<Longrightarrow> d + 283 \<le> MAXORDINAL \<Longrightarrow> date_add d DEFAULT_GESTATION_DAYS = Some (d + 283)"
  by (simp add: date_add_def DEFAULT_GESTATION_DAYS_def MINORDINAL_def)

lemma date_add_back:
  "MINORDINAL + 13 \<le> today \<Longrightarrow> today \<le> MAXORDINAL \<Longrightarrow>
     date_add today (- 6) = Some (today - 6) \<and> date_add today (- 13) = Some (today - 13)"
  by (simp add: date_add_def)

lemma fold_append_filter:
  "fold (\<lambda>row acc. if P row then acc @ [row] else acc) xs acc0 = acc0 @ filter P xs"
  by (induction xs arbitrary: acc0) simp_all

lemma fold_count_filter:
  "fold (\<lambda>g n. if P g then n + 1 else n) xs (n0::nat) = n0 + length (filter P xs)"
  by (induction xs arbitrary: n0) simp_all

lemma fold_add_filter:
  "fold (\<lambda>m t. if P m then t + f m else t) xs (t0::rat) = t0 + sum_list (map f (filter P xs))"
  by (induction xs arbitrary: t0) simp_all

lemma sum_list_ones: "sum_list (map (\<lambda>x. Suc 0) xs) = length xs"
  by (induction xs) simp_all

lemma filter_at_most_one:
  assumes "length (filter P xs) \<le> 1" and "find P xs = Some e"
  shows "filter P xs = [e]"
proof -
  from assms(2) have "e \<in> set (filter P xs)"
    by (auto simp: find_Some_iff)
  with assms(1) show ?thesis
    by (cases "filter P xs") (auto simp: le_Suc_eq)
qed



lemma py_round_zero: "py_round 0 n = 0"
  by (simp add: py_round_def round_half_even_def)

section \<open>Scoping: the code's conditions and the specification's notions\<close>

text \<open>
  A farm id is a primary key of the farm table and never 0; under that condition the
  truth value Python gives \<open>user.farm_id\<close> is "the user has a farm".
\<close>

lemma farm_scoped_iff:
  "User_farm_id user \<noteq> Some 0 \<Longrightarrow>
     farm_scoped user \<longleftrightarrow> \<not> is_admin user \<and> User_farm_id user \<noteq> None"
  by (cases "User_farm_id user") (auto simp: farm_scoped_def)

lemma truthy_farm_iff:
  "User_farm_id user \<noteq> Some 0 \<Longrightarrow> truthy_int (User_farm_id user) \<longleftrightarrow> User_farm_id user \<noteq> None"
  by (cases "User_farm_id user") auto

lemma in_scope_scoped:
  assumes "User_farm_id user \<noteq> Some 0" and "farm_scoped user"
  shows "animal_in_scope user = (\<lambda>a. Animal_farm_id a = User_farm_id user)"
    and "row_in_scope s user = animal_on_farm s user"
  using assms
  by (auto simp: fun_eq_iff farm_scoped_iff animal_in_scope_def row_in_scope_def
      animal_on_farm_def)

lemma in_scope_unscoped:
  assumes "User_farm_id user \<noteq> Some 0" and "\<not> farm_scoped user"
  shows "animal_in_scope user = (\<lambda>a. True)" and "row_in_scope s user = (\<lambda>i. True)"
  using assms
  by (auto simp: fun_eq_iff farm_scoped_iff animal_in_scope_def row_in_scope_def)

lemma on_own_farm_with_farm:
  assumes "User_farm_id user \<noteq> Some 0" and "truthy_int (User_farm_id user)"
  shows "animal_on_own_farm user = (\<lambda>a. Animal_farm_id a = User_farm_id user)"
    and "row_on_own_farm s user = animal_on_farm s user"
  using assms
  by (auto simp: fun_eq_iff truthy_farm_iff animal_on_own_farm_def row_on_own_farm_def
      animal_on_farm_def)

lemma on_own_farm_without_farm:
  assumes "User_farm_id user \<noteq> Some 0" and "\<not> truthy_int (User_farm_id user)"
  shows "animal_on_own_farm user = (\<lambda>a. True)" and "row_on_own_farm s user = (\<lambda>i. True)"
  using assms
  by (auto simp: fun_eq_iff truthy_farm_iff animal_on_own_farm_def row_on_own_farm_def)

lemma scoped_liters_day:
  "scoped_liters s user d d =
     sum_list (map total_liters
       (filter (\<lambda>m. row_in_scope s user (Milk_animal_id m))
         (filter (\<lambda>m. entry_date m = d) (milk s))))"
proof -
  have "filter (\<lambda>m. d \<le> entry_date m \<and> entry_date m \<le> d
                    \<and> row_in_scope s user (Milk_animal_id m)) (milk s)
      = filter (\<lambda>m. entry_date m = d \<and> row_in_scope s user (Milk_animal_id m)) (milk s)"
    by (rule filter_cong) auto
  then show ?thesis by (simp add: scoped_liters_def)
qed

section \<open>What each read endpoint returns\<close>

lemma dashboard_page:
  assumes "get_current_user req s = Some user"
    and "User_farm_id user \<noteq> Some 0"
    and "MINORDINAL + 13 \<le> today" and "today \<le> MAXORDINAL"
  shows "dashboard today req s = TemplateResponse (DashboardPage
     \<lparr>total_animals = length (filter (animal_in_scope user) (animals s)),
      today_milk = scoped_liters s user today today,
      avg_7 = py_round (sum_list (map total_liters
                 (filter (\<lambda>m. today - 6 \<le> entry_date m \<and> entry_date m \<le> today) (milk s))) / 7) 2,
      pregnant_count = length (pending_gestations today user s),
      chart_days = map (\<lambda>i. today - 13 + int i) [0..<14],
      chart_values = map (\<lambda>i. scoped_liters s user (today - 13 + int i) (today - 13 + int i)) [0..<14],
      recent_events = take 5 (sort_key (\<lambda>e. - event_date e) (breeding_events s))\<rparr>)"
proof (cases "farm_scoped user")
  case True
  note sc = in_scope_scoped[OF assms(2) True]
  have day: "scoped_liters s user d d =
      sum_list (map total_liters (filter (\<lambda>m. animal_on_farm s user (Milk_animal_id m))
        (filter (\<lambda>m. entry_date m = d) (milk s))))" for d
    by (simp add: scoped_liters_day sc)
  show ?thesis
    using assms(1) True date_add_back[OF assms(3,4)]
    by (simp add: dashboard_def Let_def fold_append_filter fold_count_filter fold_add_filter
        sc day pending_gestations_def py_round_zero comp_def)
next
  case False
  note sc = in_scope_unscoped[OF assms(2) False]
  have day: "scoped_liters s user d d =
      sum_list (map total_liters (filter (\<lambda>m. entry_date m = d) (milk s)))" for d
    by (simp add: scoped_liters_day sc)
  show ?thesis
    using assms(1) False date_add_back[OF assms(3,4)]
    by (simp add: dashboard_def Let_def sc day pending_gestations_def py_round_zero comp_def)
qed

lemma dashboard_avg_7:
  assumes "get_current_user req s = Some user"
    and "MINORDINAL + 13 \<le> today" and "today \<le> MAXORDINAL"
  shows "\<exists>ctx. dashboard today req s = TemplateResponse (DashboardPage ctx)
           \<and> avg_7 ctx = py_round (sum_list (map total_liters
                 (filter (\<lambda>m. today - 6 \<le> entry_date m \<and> entry_date m \<le> today) (milk s))) / 7) 2"
  using assms(1) date_add_back[OF assms(2,3)]
  by (simp add: dashboard_def Let_def py_round_zero)

lemma home_page:
  assumes "get_current_user req s = Some user"
    and "User_farm_id user \<noteq> Some 0"
  shows "home today req s = TemplateResponse (HomePage
     \<lparr>home_user = Some user,
      animals_count = Some (length (filter (animal_on_own_farm user) (animals s))),
      milk_entries_count = Some (length (filter
         (\<lambda>m. entry_date m = today \<and> row_on_own_farm s user (Milk_animal_id m)) (milk s))),
      gestations_count = Some (length (filter
         (\<lambda>g. today \<le> predicted_calving_date g \<and> actual_calving_date g = None
              \<and> row_on_own_farm s user (Gestation_animal_id g)) (gestations s)))\<rparr>)"
proof (cases "truthy_int (User_farm_id user)")
  case True
  note sc = on_own_farm_with_farm[OF assms(2) True]
  show ?thesis using assms(1) True
    by (simp add: home_def Let_def sum_list_ones sc)
next
  case False
  note sc = on_own_farm_without_farm[OF assms(2) False]
  show ?thesis using assms(1) False
    by (simp add: home_def Let_def sc)
qed

lemma animals_list_page:
  assumes "get_current_user req s = Some user"
    and "User_farm_id user \<noteq> Some 0"
  shows "\<exists>listed. animals_list req q s =
            TemplateResponse (AnimalsPage listed (case or_None q of None \<Rightarrow> [] | Some q' \<Rightarrow> q'))
          \<and> set listed \<subseteq> set (filter (animal_in_scope user) (animals s))
          \<and> (or_None q = None \<longrightarrow>
               listed = sort_key Animal_id (filter (animal_in_scope user) (animals s)))"
proof (cases "farm_scoped user")
  case True
  note sc = in_scope_scoped[OF assms(2) True]
  show ?thesis using assms(1) True
    by (cases "or_None q") (auto simp: animals_list_def Let_def sc)
next
  case False
  note sc = in_scope_unscoped[OF assms(2) False]
  show ?thesis using assms(1) False
    by (cases "or_None q") (auto simp: animals_list_def Let_def sc)
qed

lemma animal_detail_forbidden:
  assumes "get_current_user req s = Some user" and "get_Animal s animal_id = Some animal"
    and "\<not> is_admin user" and "truthy_int (User_farm_id user)"
    and "Animal_farm_id animal \<noteq> User_farm_id user"
  shows "animal_detail req animal_id s = HTTPException 403 ''Not allowed''"
  using assms by (simp add: animal_detail_def farm_scoped_def)

section \<open>What each write changes\<close>

lemma add_breeding_event_service:
  assumes "get_current_user req s = Some user" and "get_Animal s animal_id = Some animal"
    and "event_type' \<in> {AI, NaturalService}"
    and "MINORDINAL \<le> d" and "d + 283 \<le> MAXORDINAL"
  shows "add_breeding_event req animal_id event_type' d notes s =
     (RedirectResponse (''/animals/'' @ str_int animal_id) 302,
      s\<lparr>breeding_events := breeding_events s @
           [\<lparr>Event_id = next_id (map Event_id (breeding_events s)),
             Event_animal_id = animal_id, event_type = event_type', event_date = d,
             Event_notes = notes\<rparr>],
        gestations :=
          (case latest_gestation s animal_id of
             Some gest \<Rightarrow>
               map (\<lambda>g. if Gestation_id g = Gestation_id gest
                         then g\<lparr>service_date := d, predicted_calving_date := d + 283\<rparr>
                         else g) (gestations s)
           | None \<Rightarrow>
               gestations s @
                 [\<lparr>Gestation_id = next_id (map Gestation_id (gestations s)),
                   Gestation_animal_id = animal_id, service_date = d,
                   predicted_calving_date = d + 283, actual_calving_date = None,
                   Gestation_notes = None\<rparr>])\<rparr>)"
  using assms date_add_gestation[of d]
  by (auto simp: add_breeding_event_def Let_def split: option.splits)

lemma add_milk_users:
  "users (snd (add_milk req a d am pm s)) = users s"
  by (simp add: add_milk_def Let_def split: option.splits)

lemma add_milk_step:
  assumes "get_current_user req s = Some user"
    and "length (milk_rows_of s a d) \<le> 1"
  shows "\<exists>row. milk_rows_of (snd (add_milk req a d am pm s)) a d = [row]
           \<and> am_liters row = am \<and> pm_liters row = pm \<and> total_liters row = am + pm"
proof (cases "find (\<lambda>m. Milk_animal_id m = a \<and> entry_date m = d) (milk s)")
  case None
  then have "filter (\<lambda>m. Milk_animal_id m = a \<and> entry_date m = d) (milk s) = []"
    by (simp add: find_None_iff filter_empty_conv)
  with None assms(1) show ?thesis
    by (simp add: add_milk_def milk_rows_of_def Let_def)
next
  case (Some e)
  let ?P = "\<lambda>m. Milk_animal_id m = a \<and> entry_date m = d"
  let ?upd = "\<lambda>m. if Milk_id m = Milk_id e
                    then m\<lparr>am_liters := am, pm_liters := pm, total_liters := am + pm\<rparr> else m"
  have one: "filter ?P (milk s) = [e]"
    using assms(2) Some unfolding milk_rows_of_def by (rule filter_at_most_one)
  have "filter ?P (map ?upd (milk s)) = map ?upd (filter ?P (milk s))"
    by (induction "milk s") (auto simp: filter_map comp_def)
  then have "filter ?P (map ?upd (milk s)) = [?upd e]"
    by (simp add: one)
  with Some assms(1) show ?thesis
    by (simp add: add_milk_def milk_rows_of_def Let_def)
qed

lemma add_milk_preserves_one_row_per_pair:
  assumes "\<And>a d. length (milk_rows_of s a d) \<le> 1"
  shows "length (milk_rows_of (snd (add_milk req a d am pm s)) a' d') \<le> 1"
proof (cases "get_current_user req s")
  case None
  then show ?thesis using assms[of a' d'] by (simp add: add_milk_def)
next
  case (Some user)
  show ?thesis
  proof (cases "a' = a \<and> d' = d")
    case True
    with add_milk_step[OF Some assms, of a d am pm] show ?thesis by auto
  next
    case False
    let ?P = "\<lambda>m. Milk_animal_id m = a' \<and> entry_date m = d'"
    show ?thesis
    proof (cases "find (\<lambda>m. Milk_animal_id m = a \<and> entry_date m = d) (milk s)")
      case None
      with Some False assms[of a' d'] show ?thesis
        by (auto simp: add_milk_def milk_rows_of_def Let_def)
    next
      case (Some e)
      let ?upd = "\<lambda>m. if Milk_id m = Milk_id e
                    then m\<lparr>am_liters := am, pm_liters := pm, total_liters := am + pm\<rparr> else m"
      have "filter ?P (map ?upd (milk s)) = map ?upd (filter ?P (milk s))"
        by (induction "milk s") (auto simp: filter_map comp_def)
      then have "length (filter ?P (map ?upd (milk s))) = length (filter ?P (milk s))"
        by simp
      with Some \<open>get_current_user req s = Some user\<close> assms[of a' d'] show ?thesis
        by (simp add: add_milk_def milk_rows_of_def Let_def)
    qed
  qed
qed

lemma milk_writes_Cons:
  "milk_writes req a d (w # ws) s = milk_writes req a d ws (snd (add_milk req a d (fst w) (snd w) s))"
  by (simp add: milk_writes_def)



lemma animal_delete_frame:
  "milk (snd (animal_delete req animal_id s)) = milk s"
  "breeding_events (snd (animal_delete req animal_id s)) = breeding_events s"
  "gestations (snd (animal_delete req animal_id s)) = gestations s"
  "reminders (snd (animal_delete req animal_id s)) = reminders s"
  by (simp_all add: animal_delete_def split: option.splits)

section \<open>Cascading delete\<close>

text \<open>
  Claim C1. Deleting an animal is to remove every MilkYieldDaily, BreedingEvent,
  Gestation and VaccinationReminder row of that animal and then the Animal row. The
  handler only selects the dependent rows: on a store with one milk row and one
  gestation record of animal 1, deleting animal 1 removes the Animal row and leaves both
  dependent rows, which still carry \<open>animal_id = 1\<close> (\<open>animal_delete_frame\<close> shows the four
  dependent tables are never changed).
\<close>

theorem animal_delete_leaves_dependent_rows:
  "animal_delete (ex_request 1) 1
      (ex_store [ex_milk 1 1 739000 5 3] [ex_gestation 1 1 738900 None]) =
     (RedirectResponse ''/animals'' 302,
      \<lparr>users = [ex_farmer, ex_admin], breeds = [], animals = [ex_cow 2 ''B-7'' 2],
       milk = [ex_milk 1 1 739000 5 3], breeding_events = [],
       gestations = [ex_gestation 1 1 738900 None], reminders = []\<rparr>)
   \<and> milk_rows_of (snd (animal_delete (ex_request 1) 1
        (ex_store [ex_milk 1 1 739000 5 3] [ex_gestation 1 1 738900 None]))) 1 739000
       = [ex_milk 1 1 739000 5 3]"
  by (simp add: animal_delete_def milk_rows_of_def ex_defs)

section \<open>Tenant scoping of the read endpoints\<close>

text \<open>
  Claim C2, as amended. For a logged-in user, the animal list (\<open>/animals\<close>) shows only
  animals in scope, and all of them in id order when there is no search text; the
  dashboard's animal count, today's milk total, pending-gestation count and 14-day chart
  are taken over the rows in scope, where a row is in scope when the user is an admin or
  has no farm, or else when its animal is on the user's farm. The landing page
  (\<open>/home\<close>, \<open>/\<close>) counts the rows of the user's own farm whenever the user has a farm,
  admin or not, and all rows only for a user with no farm.
\<close>

theorem scoped_results_of_list_dashboard_and_home:
  assumes "get_current_user req s = Some user"
    and "User_farm_id user \<noteq> Some 0"
    and "MINORDINAL + 13 \<le> today" and "today \<le> MAXORDINAL"
  shows "(\<exists>listed. animals_list req q s =
            TemplateResponse (AnimalsPage listed (case or_None q of None \<Rightarrow> [] | Some q' \<Rightarrow> q'))
          \<and> set listed \<subseteq> set (filter (animal_in_scope user) (animals s))
          \<and> (or_None q = None \<longrightarrow>
               listed = sort_key Animal_id (filter (animal_in_scope user) (animals s))))
       \<and> (\<exists>ctx. dashboard today req s = TemplateResponse (DashboardPage ctx)
          \<and> total_animals ctx = length (filter (animal_in_scope user) (animals s))
          \<and> today_milk ctx = scoped_liters s user today today
          \<and> pregnant_count ctx = length (pending_gestations today user s)
          \<and> chart_days ctx = map (\<lambda>i. today - 13 + int i) [0..<14]
          \<and> chart_values ctx =
              map (\<lambda>i. scoped_liters s user (today - 13 + int i) (today - 13 + int i)) [0..<14])
       \<and> (\<exists>ctx. home today req s = TemplateResponse (HomePage ctx)
          \<and> animals_count ctx = Some (length (filter (animal_on_own_farm user) (animals s)))
          \<and> milk_entries_count ctx = Some (length (filter
               (\<lambda>m. entry_date m = today \<and> row_on_own_farm s user (Milk_animal_id m)) (milk s)))
          \<and> gestations_count ctx = Some (length (filter
               (\<lambda>g. today \<le> predicted_calving_date g \<and> actual_calving_date g = None
                    \<and> row_on_own_farm s user (Gestation_animal_id g)) (gestations s))))"
proof (intro conjI)
  show "\<exists>listed. animals_list req q s =
            TemplateResponse (AnimalsPage listed (case or_None q of None \<Rightarrow> [] | Some q' \<Rightarrow> q'))
          \<and> set listed \<subseteq> set (filter (animal_in_scope user) (animals s))
          \<and> (or_None q = None \<longrightarrow>
               listed = sort_key Animal_id (filter (animal_in_scope user) (animals s)))"
    by (rule animals_list_page[OF assms(1,2)])
  show "\<exists>ctx. dashboard today req s = TemplateResponse (DashboardPage ctx)
          \<and> total_animals ctx = length (filter (animal_in_scope user) (animals s))
          \<and> today_milk ctx = scoped_liters s user today today
          \<and> pregnant_count ctx = length (pending_gestations today user s)
          \<and> chart_days ctx = map (\<lambda>i. today - 13 + int i) [0..<14]
          \<and> chart_values ctx =
              map (\<lambda>i. scoped_liters s user (today - 13 + int i) (today - 13 + int i)) [0..<14]"
    by (simp add: dashboard_page[OF assms])
  show "\<exists>ctx. home today req s = TemplateResponse (HomePage ctx)
          \<and> animals_count ctx = Some (length (filter (animal_on_own_farm user) (animals s)))
          \<and> milk_entries_count ctx = Some (length (filter
               (\<lambda>m. entry_date m = today \<and> row_on_own_farm s user (Milk_animal_id m)) (milk s)))
          \<and> gestations_count ctx = Some (length (filter
               (\<lambda>g. today \<le> predicted_calving_date g \<and> actual_calving_date g = None
                    \<and> row_on_own_farm s user (Gestation_animal_id g)) (gestations s)))"
    by (simp add: home_page[OF assms(1,2)])
qed

theorem scoped_results_of_list_dashboard_and_home_witness:
  "get_current_user (ex_request 1)
      (ex_store [ex_milk 1 1 739000 5 3, ex_milk 2 2 739000 4 4] [ex_gestation 1 2 738900 None])
     = Some ex_farmer
   \<and> User_farm_id ex_farmer \<noteq> Some 0
   \<and> MINORDINAL + 13 \<le> 739000 \<and> 739000 \<le> MAXORDINAL
   \<and> animals_list (ex_request 1) None
        (ex_store [ex_milk 1 1 739000 5 3, ex_milk 2 2 739000 4 4] [ex_gestation 1 2 738900 None])
       = TemplateResponse (AnimalsPage [ex_cow 1 ''A-1'' 1] [])
   \<and> map_option total_animals (the_dashboard (dashboard 739000 (ex_request 1)
        (ex_store [ex_milk 1 1 739000 5 3, ex_milk 2 2 739000 4 4] [ex_gestation 1 2 738900 None])))
       = Some 1
   \<and> map_option today_milk (the_dashboard (dashboard 739000 (ex_request 1)
        (ex_store [ex_milk 1 1 739000 5 3, ex_milk 2 2 739000 4 4] [ex_gestation 1 2 738900 None])))
       = Some 8
   \<and> map_option pregnant_count (the_dashboard (dashboard 739000 (ex_request 1)
        (ex_store [ex_milk 1 1 739000 5 3, ex_milk 2 2 739000 4 4] [ex_gestation 1 2 738900 None])))
       = Some 0
   \<and> map_option chart_values (the_dashboard (dashboard 739000 (ex_request 1)
        (ex_store [ex_milk 1 1 739000 5 3, ex_milk 2 2 739000 4 4] [ex_gestation 1 2 738900 None])))
       = Some [0, 0, 0, 0, 0, 0, 0, 0, 0, 0, 0, 0, 0, 8]
   \<and> map_option milk_entries_count (the_home (home 739000 (ex_request 1)
        (ex_store [ex_milk 1 1 739000 5 3, ex_milk 2 2 739000 4 4] [ex_gestation 1 2 738900 None])))
       = Some (Some 1)"
proof -
  let ?s = "ex_store [ex_milk 1 1 739000 5 3, ex_milk 2 2 739000 4 4] [ex_gestation 1 2 738900 None]"
  have u: "get_current_user (ex_request 1) ?s = Some ex_farmer"
    by (simp add: ex_defs)
  have f: "User_farm_id ex_farmer \<noteq> Some 0" by (simp add: ex_farmer_def)
  have lo: "MINORDINAL + 13 \<le> 739000" by (simp add: MINORDINAL_def)
  have hi: "739000 \<le> MAXORDINAL" by (simp add: MAXORDINAL_def)
  note r = scoped_results_of_list_dashboard_and_home[OF u f lo hi, of None]
  have fs: "farm_scoped ex_farmer" by (simp add: farm_scoped_def ex_farmer_def)
  have l: "animals_list (ex_request 1) None ?s = TemplateResponse (AnimalsPage [ex_cow 1 ''A-1'' 1] [])"
    using r by (simp add: animals_list_def u fs) (simp add: ex_defs)
  from r obtain ctx where d: "dashboard 739000 (ex_request 1) ?s = TemplateResponse (DashboardPage ctx)"
    and d1: "total_animals ctx = length (filter (animal_in_scope ex_farmer) (animals ?s))"
    and d2: "today_milk ctx = scoped_liters ?s ex_farmer 739000 739000"
    and d3: "pregnant_count ctx = length (pending_gestations 739000 ex_farmer ?s)"
    and d4: "chart_values ctx =
       map (\<lambda>i. scoped_liters ?s ex_farmer (739000 - 13 + int i) (739000 - 13 + int i)) [0..<14]"
    by blast
  have e1: "total_animals ctx = 1"
    unfolding d1 by (simp add: animal_in_scope_def ex_defs)
  have e2: "today_milk ctx = 8"
    unfolding d2 by (simp add: scoped_liters_def row_in_scope_def ex_defs)
  have e3: "pregnant_count ctx = 0"
    unfolding d3 by (simp add: pending_gestations_def row_in_scope_def ex_defs)
  have e4: "chart_values ctx = [0, 0, 0, 0, 0, 0, 0, 0, 0, 0, 0, 0, 0, 8]"
    unfolding d4 by (simp add: scoped_liters_def row_in_scope_def ex_defs upt_rec)
  from r obtain hctx where h: "home 739000 (ex_request 1) ?s = TemplateResponse (HomePage hctx)"
    and h1: "milk_entries_count hctx = Some (length (filter
               (\<lambda>m. entry_date m = 739000 \<and> row_on_own_farm ?s ex_farmer (Milk_animal_id m)) (milk ?s)))"
    by blast
  have e5: "milk_entries_count hctx = Some 1"
    unfolding h1 by (simp add: row_on_own_farm_def ex_defs)
  from u f lo hi l d e1 e2 e3 e4 h e5 show ?thesis by simp
qed

text \<open>
  The claim as stated gives an admin every row on every endpoint. On the landing page an
  admin of farm 1 is shown an animal count of 1 although two animals are in scope.
\<close>

theorem home_scopes_admin_to_own_farm_counterexample:
  "get_current_user (ex_request 2) (ex_store [] []) = Some ex_admin
   \<and> is_admin ex_admin
   \<and> length (filter (animal_in_scope ex_admin) (animals (ex_store [] []))) = 2
   \<and> map_option animals_count (the_home (home 739000 (ex_request 2) (ex_store [] []))) = Some (Some 1)"
  by (simp add: home_def animal_in_scope_def ex_defs)

section \<open>Duplicate tag numbers\<close>




section \<open>Breeding events and gestation records\<close>

text \<open>
  Claim C4. A breeding event of type AI or NaturalService, recorded by a logged-in user
  with event date \<open>d\<close> for an existing animal, answers with the redirect to the animal's
  page and sets the gestation dates from \<open>d\<close>: when the animal already has a gestation
  record, one of its records gets \<open>service_date = d\<close> and
  \<open>predicted_calving_date = d + 283\<close> (every record with another id is as before);
  otherwise one new record with these two dates is appended. The event is recorded only
  when \<open>d + 283\<close> days is still a date.
\<close>

theorem service_event_sets_gestation_dates:
  assumes "get_current_user req s = Some user" and "get_Animal s animal_id = Some animal"
    and "event_type' \<in> {AI, NaturalService}"
    and "MINORDINAL \<le> d" and "d + 283 \<le> MAXORDINAL"
  shows "\<exists>s'. add_breeding_event req animal_id event_type' d notes s =
                 (RedirectResponse (''/animals/'' @ str_int animal_id) 302, s')
          \<and> (if \<exists>g\<in>set (gestations s). Gestation_animal_id g = animal_id
              then \<exists>g0\<in>set (gestations s). Gestation_animal_id g0 = animal_id
                     \<and> gestations s' =
                         map (\<lambda>g. if Gestation_id g = Gestation_id g0
                                   then g\<lparr>service_date := d, predicted_calving_date := d + 283\<rparr>
                                   else g) (gestations s)
              else gestations s' = gestations s @
                     [\<lparr>Gestation_id = next_id (map Gestation_id (gestations s)),
                       Gestation_animal_id = animal_id, service_date = d,
                       predicted_calving_date = d + 283, actual_calving_date = None,
                       Gestation_notes = None\<rparr>])"
proof (cases "latest_gestation s animal_id")
  case None
  then have "\<not> (\<exists>g\<in>set (gestations s). Gestation_animal_id g = animal_id)"
    by (simp add: latest_gestation_None_iff)
  with None show ?thesis
    by (simp add: add_breeding_event_service[OF assms])
next
  case (Some g0)
  from latest_gestation_Some[OF Some]
  have "g0 \<in> set (gestations s)" and "Gestation_animal_id g0 = animal_id" by simp_all
  with Some show ?thesis
    by (auto simp: add_breeding_event_service[OF assms])
qed

theorem service_event_sets_gestation_dates_witness:
  "get_current_user (ex_request 1) (ex_store [] [ex_gestation 1 1 738000 None]) = Some ex_farmer
   \<and> get_Animal (ex_store [] [ex_gestation 1 1 738000 None]) 1 = Some (ex_cow 1 ''A-1'' 1)
   \<and> get_Animal (ex_store [] [ex_gestation 1 1 738000 None]) 2 = Some (ex_cow 2 ''B-7'' 2)
   \<and> AI \<in> {AI, NaturalService}
   \<and> MINORDINAL \<le> 739000 \<and> 739000 + 283 \<le> MAXORDINAL
   \<and> fst (add_breeding_event (ex_request 1) 1 AI 739000 None
             (ex_store [] [ex_gestation 1 1 738000 None])) = RedirectResponse ''/animals/1'' 302
   \<and> gestations (snd (add_breeding_event (ex_request 1) 1 AI 739000 None
             (ex_store [] [ex_gestation 1 1 738000 None]))) = [ex_gestation 1 1 739000 None]
   \<and> gestations (snd (add_breeding_event (ex_request 1) 2 AI 739000 None
             (ex_store [] [ex_gestation 1 1 738000 None]))) =
       [ex_gestation 1 1 738000 None, ex_gestation 2 2 739000 None]"
proof -
  let ?s = "ex_store [] [ex_gestation 1 1 738000 None]"
  have u: "get_current_user (ex_request 1) ?s = Some ex_farmer"
    by (simp add: ex_defs)
  have a: "get_Animal ?s 1 = Some (ex_cow 1 ''A-1'' 1)"
    by (simp add: ex_defs)
  have a2: "get_Animal ?s 2 = Some (ex_cow 2 ''B-7'' 2)"
    by (simp add: ex_defs)
  have t: "AI \<in> {AI, NaturalService}" by simp
  have lo: "MINORDINAL \<le> 739000" by (simp add: MINORDINAL_def)
  have hi: "739000 + 283 \<le> MAXORDINAL" by (simp add: MAXORDINAL_def)
  note r1 = service_event_sets_gestation_dates[OF u a t lo hi, of None]
  note r2 = service_event_sets_gestation_dates[OF u a2 t lo hi, of None]
  have s1: "str_int 1 = ''1''" by (simp add: str_int_def str_nat.simps)
  from r1 s1 have c1: "fst (add_breeding_event (ex_request 1) 1 AI 739000 None ?s)
        = RedirectResponse ''/animals/1'' 302"
    and c2: "gestations (snd (add_breeding_event (ex_request 1) 1 AI 739000 None ?s))
        = [ex_gestation 1 1 739000 None]"
    by (auto simp: ex_store_def ex_gestation_def)
  from r2 have c3: "gestations (snd (add_breeding_event (ex_request 1) 2 AI 739000 None ?s))
        = [ex_gestation 1 1 738000 None, ex_gestation 2 2 739000 None]"
    by (auto simp: ex_store_def ex_gestation_def)
  from u a a2 t lo hi c1 c2 c3 show ?thesis by simp
qed

text \<open>
  Claim C9. A breeding event of type Heat, PDPositive or PDNegative, recorded by a
  logged-in user for an existing animal, appends one BreedingEvent row and changes
  nothing else in the store; in particular the gestation table is the same list as
  before.
\<close>

theorem heat_pd_events_never_touch_gestations:
  assumes "get_current_user req s = Some user" and "get_Animal s animal_id = Some animal"
    and "event_type' \<in> {Heat, PDPositive, PDNegative}"
  shows "add_breeding_event req animal_id event_type' d notes s =
           (RedirectResponse (''/animals/'' @ str_int animal_id) 302,
            s\<lparr>breeding_events := breeding_events s @
               [\<lparr>Event_id = next_id (map Event_id (breeding_events s)),
                 Event_animal_id = animal_id, event_type = event_type', event_date = d,
                 Event_notes = notes\<rparr>]\<rparr>)
         \<and> gestations (snd (add_breeding_event req animal_id event_type' d notes s)) = gestations s"
  using assms
  by (auto simp: add_breeding_event_def Let_def split: option.splits)

theorem heat_pd_events_never_touch_gestations_witness:
  "get_current_user (ex_request 1) (ex_store [] [ex_gestation 1 1 738000 None]) = Some ex_farmer
   \<and> get_Animal (ex_store [] [ex_gestation 1 1 738000 None]) 1 = Some (ex_cow 1 ''A-1'' 1)
   \<and> PDPositive \<in> {Heat, PDPositive, PDNegative}
   \<and> breeding_events (snd (add_breeding_event (ex_request 1) 1 PDPositive 739000 None
        (ex_store [] [ex_gestation 1 1 738000 None]))) =
       [\<lparr>Event_id = 1, Event_animal_id = 1, event_type = PDPositive, event_date = 739000,
         Event_notes = None\<rparr>]
   \<and> gestations (snd (add_breeding_event (ex_request 1) 1 PDPositive 739000 None
        (ex_store [] [ex_gestation 1 1 738000 None]))) = [ex_gestation 1 1 738000 None]"
proof -
  let ?s = "ex_store [] [ex_gestation 1 1 738000 None]"
  have u: "get_current_user (ex_request 1) ?s = Some ex_farmer"
    by (simp add: ex_defs)
  have a: "get_Animal ?s 1 = Some (ex_cow 1 ''A-1'' 1)"
    by (simp add: ex_defs)
  have t: "PDPositive \<in> {Heat, PDPositive, PDNegative}" by simp
  from heat_pd_events_never_touch_gestations[OF u a t, of 739000 None] u a t
  show ?thesis by (simp add: ex_store_def)
qed

text \<open>
  Claim C10. When an AI or NaturalService event is recorded for an animal that already
  has gestation records, the record overwritten is one of the animal's records whose
  \<open>service_date\<close> is the latest, whether or not its \<open>actual_calving_date\<close> is set, and no
  record's \<open>actual_calving_date\<close> changes: a closed record that is re-opened keeps its old
  actual calving date beside the new service and predicted dates.
\<close>

theorem reopened_gestation_keeps_actual_calving_date:
  assumes "get_current_user req s = Some user" and "get_Animal s animal_id = Some animal"
    and "event_type' \<in> {AI, NaturalService}"
    and "MINORDINAL \<le> d" and "d + 283 \<le> MAXORDINAL"
    and "\<exists>g\<in>set (gestations s). Gestation_animal_id g = animal_id"
  shows "\<exists>s' g0. add_breeding_event req animal_id event_type' d notes s =
                 (RedirectResponse (''/animals/'' @ str_int animal_id) 302, s')
          \<and> g0 \<in> set (gestations s) \<and> Gestation_animal_id g0 = animal_id
          \<and> (\<forall>g\<in>set (gestations s). Gestation_animal_id g = animal_id
                 \<longrightarrow> service_date g \<le> service_date g0)
          \<and> gestations s' =
               map (\<lambda>g. if Gestation_id g = Gestation_id g0
                         then g\<lparr>service_date := d, predicted_calving_date := d + 283\<rparr>
                         else g) (gestations s)
          \<and> map actual_calving_date (gestations s') = map actual_calving_date (gestations s)"
proof -
  from assms(6) obtain g0 where g0: "latest_gestation s animal_id = Some g0"
    using latest_gestation_None_iff[of s animal_id] by (cases "latest_gestation s animal_id") auto
  note props = latest_gestation_Some[OF g0]
  let ?upd = "\<lambda>g. if Gestation_id g = Gestation_id g0
                    then g\<lparr>service_date := d, predicted_calving_date := d + 283\<rparr> else g"
  have keep: "map actual_calving_date (map ?upd (gestations s)) = map actual_calving_date (gestations s)"
    by (induction "gestations s") (simp_all add: comp_def)
  let ?s' = "snd (add_breeding_event req animal_id event_type' d notes s)"
  have run: "add_breeding_event req animal_id event_type' d notes s =
               (RedirectResponse (''/animals/'' @ str_int animal_id) 302, ?s')"
    and gs: "gestations ?s' = map ?upd (gestations s)"
    using g0 by (simp_all add: add_breeding_event_service[OF assms(1-5)])
  from run props gs keep show ?thesis
    by (intro exI[of _ ?s'] exI[of _ g0]) simp
qed

theorem reopened_gestation_keeps_actual_calving_date_witness:
  "get_current_user (ex_request 1)
      (ex_store [] [ex_gestation 1 1 738000 None, ex_gestation 2 1 738400 (Some 738690)]) = Some ex_farmer
   \<and> get_Animal (ex_store [] [ex_gestation 1 1 738000 None, ex_gestation 2 1 738400 (Some 738690)]) 1
       = Some (ex_cow 1 ''A-1'' 1)
   \<and> NaturalService \<in> {AI, NaturalService}
   \<and> MINORDINAL \<le> 739000 \<and> 739000 + 283 \<le> MAXORDINAL
   \<and> ex_gestation 2 1 738400 (Some 738690)
       \<in> set (gestations (ex_store [] [ex_gestation 1 1 738000 None, ex_gestation 2 1 738400 (Some 738690)]))
   \<and> gestations (snd (add_breeding_event (ex_request 1) 1 NaturalService 739000 None
        (ex_store [] [ex_gestation 1 1 738000 None, ex_gestation 2 1 738400 (Some 738690)]))) =
       [ex_gestation 1 1 738000 None, ex_gestation 2 1 739000 (Some 738690)]"
proof -
  let ?s = "ex_store [] [ex_gestation 1 1 738000 None, ex_gestation 2 1 738400 (Some 738690)]"
  have u: "get_current_user (ex_request 1) ?s = Some ex_farmer"
    by (simp add: ex_defs)
  have a: "get_Animal ?s 1 = Some (ex_cow 1 ''A-1'' 1)"
    by (simp add: ex_defs)
  have t: "NaturalService \<in> {AI, NaturalService}" by simp
  have lo: "MINORDINAL \<le> 739000" by (simp add: MINORDINAL_def)
  have hi: "739000 + 283 \<le> MAXORDINAL" by (simp add: MAXORDINAL_def)
  have ex: "\<exists>g\<in>set (gestations ?s). Gestation_animal_id g = 1"
    by (simp add: ex_store_def ex_gestation_def)
  note r = reopened_gestation_keeps_actual_calving_date[OF u a t lo hi ex, of None]
  have run: "gestations (snd (add_breeding_event (ex_request 1) 1 NaturalService 739000 None ?s)) =
       [ex_gestation 1 1 738000 None, ex_gestation 2 1 739000 (Some 738690)]"
    using r
    by (simp add: add_breeding_event_def ex_defs latest_gestation_def date_add_def
        DEFAULT_GESTATION_DAYS_def MINORDINAL_def MAXORDINAL_def)
  from u a t lo hi run show ?thesis
    by (simp add: ex_store_def)
qed

section \<open>Milk entries\<close>

text \<open>
  Claim C5. Starting from a store with at most one MilkYieldDaily row for an (animal,
  date) pair, after any non-empty sequence of milk-entry writes of a logged-in user for
  that pair the store has exactly one row for the pair; its \<open>am_liters\<close> and \<open>pm_liters\<close>
  are those of the last write and its \<open>total_liters\<close> is their sum. (Every write keeps
  "at most one row per pair" for all pairs, see \<open>add_milk_preserves_one_row_per_pair\<close>,
  so the condition holds in every store the handlers build from an empty milk table.)
\<close>

theorem milk_upsert_keeps_one_row_of_latest_write:
  assumes "get_current_user req s = Some user"
    and "length (milk_rows_of s a d) \<le> 1"
    and "ws \<noteq> []"
  shows "\<exists>row. milk_rows_of (milk_writes req a d ws s) a d = [row]
           \<and> am_liters row = fst (last ws) \<and> pm_liters row = snd (last ws)
           \<and> total_liters row = fst (last ws) + snd (last ws)"
  using assms
proof (induction ws arbitrary: s)
  case Nil
  then show ?case by simp
next
  case (Cons w ws)
  let ?s1 = "snd (add_milk req a d (fst w) (snd w) s)"
  from add_milk_step[OF Cons.prems(1,2), of "fst w" "snd w"]
  obtain row where row: "milk_rows_of ?s1 a d = [row]" "am_liters row = fst w"
    "pm_liters row = snd w" "total_liters row = fst w + snd w"
    by blast
  show ?case
  proof (cases "ws = []")
    case True
    with row show ?thesis by (simp add: milk_writes_def)
  next
    case False
    have u1: "get_current_user req ?s1 = Some user"
      using Cons.prems(1) by (simp add: get_current_user_cong[OF add_milk_users])
    have "length (milk_rows_of ?s1 a d) \<le> 1" using row(1) by simp
    from Cons.IH[OF u1 this False] False show ?thesis
      by (simp add: milk_writes_Cons)
  qed
qed

theorem milk_upsert_keeps_one_row_of_latest_write_witness:
  "get_current_user (ex_request 1) (ex_store [ex_milk 1 1 739000 5 3] []) = Some ex_farmer
   \<and> length (milk_rows_of (ex_store [ex_milk 1 1 739000 5 3] []) 1 739000) \<le> 1
   \<and> [(4, 4), (6, 2)] \<noteq> ([] :: (rat \<times> rat) list)
   \<and> milk (milk_writes (ex_request 1) 1 739000 [(4, 4), (6, 2)]
             (ex_store [ex_milk 1 1 739000 5 3] [])) = [ex_milk 1 1 739000 6 2]
   \<and> milk (milk_writes (ex_request 1) 2 739000 [(4, 4), (6, 2)]
             (ex_store [ex_milk 1 1 739000 5 3] [])) =
       [ex_milk 1 1 739000 5 3, ex_milk 2 2 739000 6 2]"
proof -
  let ?s = "ex_store [ex_milk 1 1 739000 5 3] []"
  have u: "get_current_user (ex_request 1) ?s = Some ex_farmer"
    by (simp add: ex_defs)
  have one: "length (milk_rows_of ?s 1 739000) \<le> 1"
    by (simp add: milk_rows_of_def ex_store_def ex_milk_def)
  have ne: "[(4, 4), (6, 2)] \<noteq> ([] :: (rat \<times> rat) list)" by simp
  note r = milk_upsert_keeps_one_row_of_latest_write[OF u one ne]
  have run1: "milk (milk_writes (ex_request 1) 1 739000 [(4, 4), (6, 2)] ?s) = [ex_milk 1 1 739000 6 2]"
    using r by (simp add: milk_writes_def add_milk_def ex_defs)
  have run2: "milk (milk_writes (ex_request 1) 2 739000 [(4, 4), (6, 2)] ?s) =
       [ex_milk 1 1 739000 5 3, ex_milk 2 2 739000 6 2]"
    by (simp add: milk_writes_def add_milk_def ex_defs)
  from u one ne run1 run2 show ?thesis by simp
qed

section \<open>Dashboard aggregates\<close>

text \<open>
  Claim C6. For a logged-in user the dashboard's pending-gestation count is the number
  of gestation records with \<open>predicted_calving_date \<ge> today\<close>, no actual calving date and
  an animal in scope for the user; a record whose predicted date is before today and
  whose actual calving date is null is not among the records counted. (The user's farm
  id, when there is one, is a non-zero key, and today is a date at least 13 days after
  the first date.)
\<close>

theorem dashboard_pending_gestation_count:
  assumes "get_current_user req s = Some user"
    and "User_farm_id user \<noteq> Some 0"
    and "MINORDINAL + 13 \<le> today" and "today \<le> MAXORDINAL"
  shows "\<exists>ctx. dashboard today req s = TemplateResponse (DashboardPage ctx)
           \<and> pregnant_count ctx = length (pending_gestations today user s)
           \<and> (\<forall>g\<in>set (gestations s).
                 predicted_calving_date g < today \<and> actual_calving_date g = None
                   \<longrightarrow> g \<notin> set (pending_gestations today user s))"
  by (auto simp: dashboard_page[OF assms] pending_gestations_def)

theorem dashboard_pending_gestation_count_witness:
  "get_current_user (ex_request 1)
      (ex_store [] [ex_gestation 1 1 738900 None, ex_gestation 2 1 738000 None,
                    ex_gestation 3 2 738900 None, ex_gestation 4 1 738950 (Some 738990)])
     = Some ex_farmer
   \<and> User_farm_id ex_farmer \<noteq> Some 0
   \<and> MINORDINAL + 13 \<le> 739000 \<and> 739000 \<le> MAXORDINAL
   \<and> map_option pregnant_count (the_dashboard (dashboard 739000 (ex_request 1)
        (ex_store [] [ex_gestation 1 1 738900 None, ex_gestation 2 1 738000 None,
                      ex_gestation 3 2 738900 None, ex_gestation 4 1 738950 (Some 738990)])))
       = Some 1
   \<and> map_option pregnant_count (the_dashboard (dashboard 739000 (ex_request 2)
        (ex_store [] [ex_gestation 1 1 738900 None, ex_gestation 2 1 738000 None,
                      ex_gestation 3 2 738900 None, ex_gestation 4 1 738950 (Some 738990)])))
       = Some 2"
proof -
  let ?s = "ex_store [] [ex_gestation 1 1 738900 None, ex_gestation 2 1 738000 None,
                    ex_gestation 3 2 738900 None, ex_gestation 4 1 738950 (Some 738990)]"
  have u: "get_current_user (ex_request 1) ?s = Some ex_farmer"
    by (simp add: ex_defs)
  have u2: "get_current_user (ex_request 2) ?s = Some ex_admin"
    by (simp add: ex_defs)
  have f: "User_farm_id ex_farmer \<noteq> Some 0" by (simp add: ex_farmer_def)
  have f2: "User_farm_id ex_admin \<noteq> Some 0" by (simp add: ex_admin_def)
  have lo: "MINORDINAL + 13 \<le> 739000" by (simp add: MINORDINAL_def)
  have hi: "739000 \<le> MAXORDINAL" by (simp add: MAXORDINAL_def)
  from dashboard_pending_gestation_count[OF u f lo hi]
  have c1: "map_option pregnant_count (the_dashboard (dashboard 739000 (ex_request 1) ?s)) = Some 1"
    by (auto simp: pending_gestations_def row_in_scope_def ex_defs)
  from dashboard_pending_gestation_count[OF u2 f2 lo hi]
  have c2: "map_option pregnant_count (the_dashboard (dashboard 739000 (ex_request 2) ?s)) = Some 2"
    by (auto simp: pending_gestations_def row_in_scope_def ex_defs)
  from u f lo hi c1 c2 show ?thesis by simp
qed




text \<open>
  For a user restricted to a farm the 7-day sum is not restricted as today's total and
  the chart are: the farmer of farm 1, whose only cow has no milk rows, is shown the
  average of farm 2's milk.
\<close>

theorem avg_7_counts_other_farms_milk:
  "get_current_user (ex_request 1) (ex_store [ex_milk 1 2 739000 4 3] []) = Some ex_farmer
   \<and> farm_scoped ex_farmer
   \<and> map_option today_milk (the_dashboard (dashboard 739000 (ex_request 1)
        (ex_store [ex_milk 1 2 739000 4 3] []))) = Some 0
   \<and> scoped_liters (ex_store [ex_milk 1 2 739000 4 3] []) ex_farmer (739000 - 6) 739000 = 0
   \<and> map_option avg_7 (the_dashboard (dashboard 739000 (ex_request 1)
        (ex_store [ex_milk 1 2 739000 4 3] []))) = Some 1"
proof -
  let ?s = "ex_store [ex_milk 1 2 739000 4 3] []"
  have u: "get_current_user (ex_request 1) ?s = Some ex_farmer"
    by (simp add: ex_defs)
  have f: "User_farm_id ex_farmer \<noteq> Some 0" by (simp add: ex_farmer_def)
  have fs: "farm_scoped ex_farmer" by (simp add: farm_scoped_def ex_farmer_def)
  have lo: "MINORDINAL + 13 \<le> 739000" by (simp add: MINORDINAL_def)
  have hi: "739000 \<le> MAXORDINAL" by (simp add: MAXORDINAL_def)
  have z: "scoped_liters ?s ex_farmer (739000 - 6) 739000 = 0"
    by (simp add: scoped_liters_def row_in_scope_def ex_defs)
  have z': "scoped_liters ?s ex_farmer 739000 739000 = 0"
    by (simp add: scoped_liters_def row_in_scope_def ex_defs)
  from dashboard_avg_7[OF u lo hi] obtain ctx
    where d: "dashboard 739000 (ex_request 1) ?s = TemplateResponse (DashboardPage ctx)"
      and v: "avg_7 ctx = py_round (sum_list (map total_liters
                 (filter (\<lambda>m. 739000 - 6 \<le> entry_date m \<and> entry_date m \<le> 739000) (milk ?s))) / 7) 2"
    by blast
  have w: "sum_list (map total_liters
       (filter (\<lambda>m. 739000 - 6 \<le> entry_date m \<and> entry_date m \<le> 739000) (milk ?s))) / 7 = 1"
    by (simp add: ex_defs)
  have r: "py_round 1 2 = 1" by code_simp
  from v w r have a: "avg_7 ctx = 1" by simp
  have m: "today_milk ctx = 0"
    using d z' by (auto simp: dashboard_page[OF u f lo hi])
  from u fs z d a m show ?thesis by simp
qed

section \<open>Cross-farm access to one animal\<close>

text \<open>
  Claim C8. A non-admin user of one farm who addresses an animal of another farm is to
  get the access-denied response from every animal-specific operation. The detail view
  does answer 403 (\<open>animal_detail_forbidden\<close>); delete, milk entry, breeding event and
  edit have no such check: the farmer of farm 1 deletes, milks, records a heat for and
  re-tags the cow of farm 2.
\<close>

theorem cross_farm_writes_are_not_forbidden:
  "get_current_user (ex_request 1) (ex_store [] []) = Some ex_farmer
   \<and> \<not> is_admin ex_farmer \<and> User_farm_id ex_farmer = Some 1
   \<and> get_Animal (ex_store [] []) 2 = Some (ex_cow 2 ''B-7'' 2)
   \<and> Animal_farm_id (ex_cow 2 ''B-7'' 2) = Some 2
   \<and> animal_detail (ex_request 1) 2 (ex_store [] []) = HTTPException 403 ''Not allowed''
   \<and> animal_delete (ex_request 1) 2 (ex_store [] []) =
       (RedirectResponse ''/animals'' 302, (ex_store [] [])\<lparr>animals := [ex_cow 1 ''A-1'' 1]\<rparr>)
   \<and> add_milk (ex_request 1) 2 739000 5 3 (ex_store [] []) =
       (RedirectResponse ''/animals/2'' 302, ex_store [ex_milk 1 2 739000 5 3] [])
   \<and> add_breeding_event (ex_request 1) 2 Heat 739000 None (ex_store [] []) =
       (RedirectResponse ''/animals/2'' 302,
        (ex_store [] [])\<lparr>breeding_events :=
          [\<lparr>Event_id = 1, Event_animal_id = 2, event_type = Heat, event_date = 739000,
            Event_notes = None\<rparr>]\<rparr>)
   \<and> animal_edit (ex_request 1) 2 (ex_form ''B-8'' None) (ex_store [] []) =
       (RedirectResponse ''/animals/2'' 302,
        (ex_store [] [])\<lparr>animals :=
          [ex_cow 1 ''A-1'' 1, (ex_cow 2 ''B-8'' 2)\<lparr>birthdate := 738000\<rparr>]\<rparr>)"
  by (auto simp: animal_detail_def animal_delete_def add_milk_def add_breeding_event_def
      animal_edit_def breed_lookup_or_create_def farm_scoped_def ex_defs str_defs form_defs)

end
